theory Spec2Isabelle
  imports Complex_Main
begin

section \<open>Python values used by chatbot.py\<close>

subsection \<open>Strings\<close>

text \<open>
  A Python \<open>str\<close> is a sequence of Unicode code points, so it is modelled as a list of
  natural numbers. \<open>py\<close> writes a literal of the source.
\<close>

type_synonym pystr = "nat list"

definition py :: "string \<Rightarrow> pystr" where
  "py s = map of_char s"

text \<open>
  \<open>str.strip()\<close> removes leading and trailing whitespace. \<open>isspace\<close> is the set of code
  points that CPython treats as whitespace.
\<close>

definition isspace :: "nat \<Rightarrow> bool" where
  "isspace c =
     ((9 \<le> c \<and> c \<le> 13) \<or> (28 \<le> c \<and> c \<le> 32) \<or> c = 133 \<or> c = 160 \<or> c = 5760
      \<or> (8192 \<le> c \<and> c \<le> 8202) \<or> c = 8232 \<or> c = 8233 \<or> c = 8239 \<or> c = 8287
      \<or> c = 12288)"

definition strip :: "pystr \<Rightarrow> pystr" where
  "strip s = rev (dropWhile isspace (rev (dropWhile isspace s)))"

text \<open>
  \<open>str.lower()\<close>, exact on U+0000 to U+00FF. Above that range the model leaves a code
  point as it is; no code point there lowercases to a letter of \<open>quit\<close> or \<open>clear\<close>, so
  the two comparisons of the terminal loop come out as in Python on every string.
\<close>

definition lower_cp :: "nat \<Rightarrow> nat" where
  "lower_cp c =
     (if (65 \<le> c \<and> c \<le> 90) \<or> (192 \<le> c \<and> c \<le> 222 \<and> c \<noteq> 215) then c + 32 else c)"

definition lower :: "pystr \<Rightarrow> pystr" where
  "lower s = map lower_cp s"

subsection \<open>Exceptions\<close>

text \<open>
  The exception classes the program tells apart, each with its message. \<open>Exception\<close> is
  any other subclass of Exception; \<open>BaseException\<close> is one that is not an Exception
  (KeyboardInterrupt, SystemExit), which \<open>except Exception\<close> lets through.
\<close>

datatype exception =
    ImportError pystr
  | ValueError pystr
  | EOFError pystr
  | Exception pystr
  | BaseException pystr

fun str_exc :: "exception \<Rightarrow> pystr" where
  "str_exc (ImportError m) = m"
| "str_exc (ValueError m) = m"
| "str_exc (EOFError m) = m"
| "str_exc (Exception m) = m"
| "str_exc (BaseException m) = m"

fun is_Exception :: "exception \<Rightarrow> bool" where
  "is_Exception (BaseException m) = False"
| "is_Exception e = True"

fun is_ImportError :: "exception \<Rightarrow> bool" where
  "is_ImportError (ImportError m) = True"
| "is_ImportError e = False"

section \<open>ChatbotConfig\<close>

record ChatbotConfig =
  model_name :: pystr
  temperature :: real
  max_tokens :: int
  system_prompt :: pystr

definition ChatbotConfig_init :: ChatbotConfig where
  "ChatbotConfig_init =
     \<lparr> model_name = py ''claude-3-sonnet-20240229'',
       temperature = 7 / 10,
       max_tokens = 1000,
       system_prompt = py ''You are a helpful AI assistant. You are knowledgeable, friendly, and aim to provide accurate and helpful responses. You can engage in conversations on a wide variety of topics.'' \<rparr>"

section \<open>The library objects held by AnthropicChatbot\<close>

text \<open>
  \<open>ChatAnthropic\<close> is the client object: the four arguments its constructor is given.
  Building it contacts nothing.
\<close>

record ChatAnthropic =
  model :: pystr
  llm_temperature :: real
  llm_max_tokens :: int
  anthropic_api_key :: pystr

datatype message = SystemMessage pystr | HumanMessage pystr | AIMessage pystr

text \<open>
  The role under which a message class is sent to the service, and its text.
\<close>

fun message_role :: "message \<Rightarrow> pystr" where
  "message_role (SystemMessage c) = py ''system''"
| "message_role (HumanMessage c) = py ''user''"
| "message_role (AIMessage c) = py ''assistant''"

fun message_content :: "message \<Rightarrow> pystr" where
  "message_content (SystemMessage c) = c"
| "message_content (HumanMessage c) = c"
| "message_content (AIMessage c) = c"

text \<open>
  The three kinds of entry that \<open>setup_prompt_template\<close> gives to
  \<open>ChatPromptTemplate.from_messages\<close>: a ready message, the placeholder for the variable
  \<open>chat_history\<close>, and the pair \<open>("human", "{input}")\<close>.
\<close>

datatype prompt_part = Message message | MessagesPlaceholder | HumanInput

text \<open>
  Rendering the template on the dictionary \<open>{"input": .., "chat_history": ..}\<close>: a ready
  message stands for itself, the placeholder for the list it is given, and the pair for
  one human message holding the input.
\<close>

fun format_part :: "pystr \<Rightarrow> message list \<Rightarrow> prompt_part \<Rightarrow> message list" where
  "format_part inp hist (Message m) = [m]"
| "format_part inp hist MessagesPlaceholder = hist"
| "format_part inp hist HumanInput = [HumanMessage inp]"

definition format_messages :: "prompt_part list \<Rightarrow> pystr \<Rightarrow> message list \<Rightarrow> message list" where
  "format_messages parts inp hist = concat (map (format_part inp hist) parts)"

text \<open>
  The remote service. It has a state of its own (\<open>'w\<close>), so two calls with the same
  messages may answer differently; a call returns the generated text or raises.
\<close>

type_synonym 'w invoker = "'w \<Rightarrow> ChatAnthropic \<Rightarrow> message list \<Rightarrow> (exception + pystr) \<times> 'w"

section \<open>AnthropicChatbot\<close>

record AnthropicChatbot =
  config :: ChatbotConfig
  llm :: ChatAnthropic
  prompt :: "prompt_part list"

text \<open>\<open>os.environ\<close> is a map from names to values; \<open>os.getenv\<close> looks a name up.\<close>

type_synonym environ = "pystr \<rightharpoonup> pystr"

definition setup_llm :: "environ \<Rightarrow> ChatbotConfig \<Rightarrow> exception + ChatAnthropic" where
  "setup_llm env cfg =
     (case env (py ''ANTHROPIC_API_KEY'') of
        None \<Rightarrow> Inl (ValueError (py ''ANTHROPIC_API_KEY environment variable is required''))
      | Some api_key \<Rightarrow>
          if api_key = [] then
            Inl (ValueError (py ''ANTHROPIC_API_KEY environment variable is required''))
          else
            Inr \<lparr> model = model_name cfg,
                  llm_temperature = temperature cfg,
                  llm_max_tokens = max_tokens cfg,
                  anthropic_api_key = api_key \<rparr>)"

definition setup_prompt_template :: "ChatbotConfig \<Rightarrow> prompt_part list" where
  "setup_prompt_template cfg =
     [Message (SystemMessage (system_prompt cfg)), MessagesPlaceholder, HumanInput]"

text \<open>
  \<open>__init__\<close>: the configuration is stored, then the client and the template are built.
  \<open>setup_chain\<close> only composes the parts already held, so the chain adds no field.
\<close>

definition AnthropicChatbot_init :: "environ \<Rightarrow> ChatbotConfig \<Rightarrow> exception + AnthropicChatbot" where
  "AnthropicChatbot_init env cfg =
     (case setup_llm env cfg of
        Inl e \<Rightarrow> Inl e
      | Inr l \<Rightarrow> Inr \<lparr> config = cfg, llm = l, prompt = setup_prompt_template cfg \<rparr>)"

text \<open>
  An entry of a chat history: a dictionary with the keys \<open>role\<close> and \<open>content\<close>, both
  strings. Every entry the program builds has the two keys, so the entry is a record and
  a lookup cannot fail.
\<close>

record msg =
  role :: pystr
  content :: pystr

text \<open>The loop of \<open>get_response\<close> that turns the history into library messages.\<close>

definition to_message :: "msg \<Rightarrow> message" where
  "to_message m =
     (if role m = py ''user'' then HumanMessage (content m) else AIMessage (content m))"

definition convert_history :: "msg list \<Rightarrow> message list" where
  "convert_history chat_history = map to_message chat_history"

text \<open>
  What the chain sends: the template rendered on the input and the converted history.
\<close>

definition chain_messages :: "AnthropicChatbot \<Rightarrow> pystr \<Rightarrow> msg list option \<Rightarrow> message list" where
  "chain_messages cb user_input chat_history =
     format_messages (prompt cb) user_input
       (convert_history (case chat_history of None \<Rightarrow> [] | Some h \<Rightarrow> h))"

definition get_response ::
  "'w invoker \<Rightarrow> AnthropicChatbot \<Rightarrow> pystr \<Rightarrow> msg list option \<Rightarrow> 'w \<Rightarrow> (exception + pystr) \<times> 'w" where
  "get_response invoke cb user_input chat_history w =
     invoke w (llm cb) (chain_messages cb user_input chat_history)"

section \<open>The terminal front end: CLIChatbot\<close>

record CLIChatbot =
  cli_config :: ChatbotConfig
  chatbot :: AnthropicChatbot
  chat_history :: "msg list"

definition CLIChatbot_init :: "environ \<Rightarrow> exception + CLIChatbot" where
  "CLIChatbot_init env =
     (case AnthropicChatbot_init env ChatbotConfig_init of
        Inl e \<Rightarrow> Inl e
      | Inr cb \<Rightarrow> Inr \<lparr> cli_config = ChatbotConfig_init, chatbot = cb, chat_history = [] \<rparr>)"

text \<open>
  What \<open>run\<close> works on: the object, the lines printed so far, and the remote service.
\<close>

record 'w terminal =
  self :: CLIChatbot
  stdout :: "pystr list"
  world :: 'w

text \<open>Lines 217 to 226: the \<open>try\<close> block that sends one input. The result is the
  exception that leaves the block, if any.\<close>

definition cli_submit :: "'w invoker \<Rightarrow> pystr \<Rightarrow> 'w terminal \<Rightarrow> exception option \<times> 'w terminal" where
  "cli_submit invoke user_input t =
     (case get_response invoke (chatbot (self t)) user_input
             (Some (chat_history (self t))) (world t) of
        (Inr response, w') \<Rightarrow>
          (None,
           t\<lparr> self := (self t)\<lparr> chat_history := chat_history (self t)
                  @ [\<lparr> role = py ''user'', content = user_input \<rparr>,
                     \<lparr> role = py ''assistant'', content = response \<rparr>] \<rparr>,
              stdout := stdout t @ [py ''\<newline>Assistant: '' @ response],
              world := w' \<rparr>)
      | (Inl e, w') \<Rightarrow>
          if is_Exception e then
            (None, t\<lparr> stdout := stdout t @ [py ''Error: '' @ str_exc e], world := w' \<rparr>)
          else (Some e, t\<lparr> world := w' \<rparr>))"

text \<open>Lines 211 and 212: the \<open>clear\<close> branch.\<close>

definition cli_clear :: "'w terminal \<Rightarrow> 'w terminal" where
  "cli_clear t =
     t\<lparr> self := (self t)\<lparr> chat_history := [] \<rparr>,
        stdout := stdout t @ [py ''Chat history cleared.''] \<rparr>"

datatype flow = Next | Break | Raised exception

text \<open>
  Lines 205 to 226: one pass through the loop body, on the line that \<open>input\<close> returned.
\<close>

definition run_iteration :: "'w invoker \<Rightarrow> pystr \<Rightarrow> 'w terminal \<Rightarrow> flow \<times> 'w terminal" where
  "run_iteration invoke line t0 =
     (let t = t0\<lparr> stdout := stdout t0 @ [py ''\<newline>You: ''] \<rparr>;
          user_input = strip line
      in if lower user_input = py ''quit'' then
           (Break, t\<lparr> stdout := stdout t @ [py ''Goodbye!''] \<rparr>)
         else if lower user_input = py ''clear'' then (Next, cli_clear t)
         else if user_input = [] then (Next, t)
         else (case cli_submit invoke user_input t of
                 (None, t') \<Rightarrow> (Next, t')
               | (Some e, t') \<Rightarrow> (Raised e, t')))"

text \<open>
  The \<open>while True\<close> loop on the lines typed. When the input is exhausted \<open>input\<close> raises
  EOFError, outside the \<open>try\<close>, so the loop ends with it.
\<close>

fun run_loop :: "'w invoker \<Rightarrow> pystr list \<Rightarrow> 'w terminal \<Rightarrow> exception option \<times> 'w terminal" where
  "run_loop invoke [] t =
     (Some (EOFError (py ''EOF when reading a line'')),
      t\<lparr> stdout := stdout t @ [py ''\<newline>You: ''] \<rparr>)"
| "run_loop invoke (line # rest) t =
     (case run_iteration invoke line t of
        (Next, t') \<Rightarrow> run_loop invoke rest t'
      | (Break, t') \<Rightarrow> (None, t')
      | (Raised e, t') \<Rightarrow> (Some e, t'))"

definition run :: "'w invoker \<Rightarrow> pystr list \<Rightarrow> 'w terminal \<Rightarrow> exception option \<times> 'w terminal" where
  "run invoke stdin t =
     run_loop invoke stdin
       (t\<lparr> stdout := stdout t
              @ [129302 # py '' LangChain Anthropic Chatbot'',
                 py ''Type 'quit' to exit, 'clear' to clear history'',
                 replicate 50 45] \<rparr>)"

section \<open>The widget front end: main\<close>

text \<open>
  Streamlit runs \<open>main\<close> from the top at every interaction. \<open>ui_inputs\<close> holds what the
  widgets return during one such run; \<open>st_fault\<close> is an exception that the first
  Streamlit call raises when the page cannot be set up.
\<close>

record ui_inputs =
  st_fault :: "exception option"
  api_key_input :: pystr
  model_choice :: pystr
  temperature_input :: real
  max_tokens_input :: int
  system_prompt_input :: pystr
  clear_clicked :: bool
  chat_input :: "pystr option"

datatype ui_event =
    St_title pystr
  | St_markdown pystr
  | St_error pystr
  | St_info pystr
  | St_warning pystr
  | Chat_markdown pystr pystr
  | Chat_error pystr pystr

text \<open>
  What survives between runs: the process environment, \<open>st.session_state.messages\<close>
  (\<open>None\<close> while the key is absent), what the page shows, and the remote service.
\<close>

record 'w web =
  os_environ :: environ
  messages :: "msg list option"
  page :: "ui_event list"
  service :: 'w

datatype outcome = Finished | Rerun | Propagated exception

text \<open>
  Lines 163 to 177: the chat input and what follows it. Appending to an absent
  \<open>messages\<close> raises AttributeError.
\<close>

definition widget_submit ::
  "'w invoker \<Rightarrow> AnthropicChatbot \<Rightarrow> pystr option \<Rightarrow> 'w web \<Rightarrow> outcome \<times> 'w web" where
  "widget_submit invoke cb chat_in s =
     (case chat_in of
        None \<Rightarrow> (Finished, s)
      | Some prompt_text \<Rightarrow>
          if prompt_text = [] then (Finished, s)
          else
            (case messages s of
               None \<Rightarrow> (Propagated (Exception (py ''st.session_state has no attribute messages'')), s)
             | Some h \<Rightarrow>
                 let h1 = h @ [\<lparr> role = py ''user'', content = prompt_text \<rparr>];
                     s1 = s\<lparr> messages := Some h1,
                             page := page s @ [Chat_markdown (py ''user'') prompt_text] \<rparr>
                 in (case get_response invoke cb prompt_text (Some (butlast h1)) (service s1) of
                       (Inr response, w') \<Rightarrow>
                         (Finished,
                          s1\<lparr> messages := Some (h1 @ [\<lparr> role = py ''assistant'', content = response \<rparr>]),
                              page := page s1 @ [Chat_markdown (py ''assistant'') response],
                              service := w' \<rparr>)
                     | (Inl e, w') \<Rightarrow>
                         if is_Exception e then
                           (Finished,
                            s1\<lparr> page := page s1
                                   @ [Chat_error (py ''assistant'') (py ''Error: '' @ str_exc e)],
                                service := w' \<rparr>)
                         else (Propagated e, s1\<lparr> service := w' \<rparr>))))"

text \<open>Lines 139 and 140: the button that clears the chat, then \<open>st.rerun()\<close>.\<close>

definition widget_clear :: "'w web \<Rightarrow> outcome \<times> 'w web" where
  "widget_clear s = (Rerun, s\<lparr> messages := Some [] \<rparr>)"

text \<open>Lines 145 to 177: the body of the outer \<open>try\<close>.\<close>

definition main_chat :: "'w invoker \<Rightarrow> ui_inputs \<Rightarrow> 'w web \<Rightarrow> outcome \<times> 'w web" where
  "main_chat invoke ui s =
     (let cfg = ChatbotConfig_init\<lparr> model_name := model_choice ui,
                                    temperature := temperature_input ui,
                                    max_tokens := max_tokens_input ui,
                                    system_prompt := system_prompt_input ui \<rparr>
      in case AnthropicChatbot_init (os_environ s) cfg of
           Inl e \<Rightarrow> (Propagated e, s)
         | Inr cb \<Rightarrow>
             let h = (case messages s of None \<Rightarrow> [] | Some h \<Rightarrow> h);
                 s1 = s\<lparr> messages := Some h,
                         page := page s @ map (\<lambda>m. Chat_markdown (role m) (content m)) h \<rparr>
             in widget_submit invoke cb (chat_input ui) s1)"

definition main :: "'w invoker \<Rightarrow> ui_inputs \<Rightarrow> 'w web \<Rightarrow> outcome \<times> 'w web" where
  "main invoke ui s0 =
     (case st_fault ui of
        Some e \<Rightarrow> (Propagated e, s0)
      | None \<Rightarrow>
          let s1 = s0\<lparr> page := page s0
                         @ [St_title (129302 # py '' LangChain Anthropic Chatbot''),
                            St_markdown (py ''A chatbot powered by LangChain and Anthropic's Claude API'')] \<rparr>;
              s2 = (if api_key_input ui \<noteq> [] then
                      s1\<lparr> os_environ := (os_environ s1)(py ''ANTHROPIC_API_KEY'' \<mapsto> api_key_input ui) \<rparr>
                    else s1)
          in if clear_clicked ui then widget_clear s2
             else if api_key_input ui \<noteq> [] then
               (case main_chat invoke ui s2 of
                  (Propagated e, s3) \<Rightarrow>
                    if is_Exception e then
                      (Finished,
                       s3\<lparr> page := page s3
                              @ [St_error (py ''Failed to initialize chatbot: '' @ str_exc e),
                                 St_info (py ''Please check your API key and try again.'')] \<rparr>)
                    else (Propagated e, s3)
                | (oc, s3) \<Rightarrow> (oc, s3))
             else
               (Finished,
                s2\<lparr> page := page s2
                       @ [St_warning (py ''Please enter your Anthropic API key in the sidebar to start chatting.''),
                          St_info (py ''\<newline>        To get started:\<newline>        1. Get your API key from https://console.anthropic.com/\<newline>        2. Enter it in the sidebar\<newline>        3. Start chatting!\<newline>        '')] \<rparr>))"

section \<open>The module run as a script\<close>

text \<open>
  The import statements of lines 4 to 14, in order, by the module each names.
  \<open>importable\<close> says which of them the interpreter can load; the first that it cannot
  raises ImportError at that line, with the module's name between quotes (code point 39)
  in its message.
\<close>

definition module_imports :: "pystr list" where
  "module_imports =
     [py ''os'', py ''typing'', py ''streamlit'', py ''langchain_anthropic'',
      py ''langchain_core.messages'', py ''langchain_core.prompts'',
      py ''langchain_core.output_parsers'', py ''langchain_core.runnables'',
      py ''langchain_community.chat_message_histories'',
      py ''langchain_core.runnables.history'', py ''asyncio'']"

fun import_modules :: "(pystr \<Rightarrow> bool) \<Rightarrow> pystr list \<Rightarrow> exception option" where
  "import_modules importable [] = None"
| "import_modules importable (m # ms) =
     (if importable m then import_modules importable ms
      else Some (ImportError (py ''No module named '' @ [39] @ m @ [39])))"

text \<open>How the process ends: with a traceback, in the widget front end, or in the
  terminal front end.\<close>

datatype 'w exit =
    Uncaught exception
  | Widget outcome "'w web"
  | Terminal "exception option" "'w terminal"

text \<open>Lines 266 and 267 (and 270 and 271): build the terminal chatbot and run it.\<close>

definition cli_fallback :: "'w invoker \<Rightarrow> pystr list \<Rightarrow> pystr list \<Rightarrow> 'w web \<Rightarrow> 'w exit" where
  "cli_fallback invoke stdin printed s =
     (case CLIChatbot_init (os_environ s) of
        Inl e \<Rightarrow> Uncaught e
      | Inr c \<Rightarrow>
          (case run invoke stdin \<lparr> self = c, stdout = printed, world = service s \<rparr> of
             (r, t) \<Rightarrow> Terminal r t))"

text \<open>
  The whole file: the imports at the top, then the block under
  \<open>if __name__ == "__main__"\<close>. The import of line 260 finds the module already loaded.
\<close>

definition script ::
  "(pystr \<Rightarrow> bool) \<Rightarrow> 'w invoker \<Rightarrow> ui_inputs \<Rightarrow> pystr list \<Rightarrow> 'w web \<Rightarrow> 'w exit" where
  "script importable invoke ui stdin s =
     (case import_modules importable module_imports of
        Some e \<Rightarrow> Uncaught e
      | None \<Rightarrow>
          (case main invoke ui s of
             (Propagated e, s') \<Rightarrow>
               if is_ImportError e then
                 cli_fallback invoke stdin [py ''Streamlit not available. Using CLI version.''] s'
               else if is_Exception e then cli_fallback invoke stdin [] s'
               else Uncaught e
           | (oc, s') \<Rightarrow> Widget oc s'))"

section \<open>Example objects\<close>

text \<open>
  A process environment that holds a key, the chatbot built from it with the default
  configuration, a service that answers \<open>ok\<close>, one that fails, and the two front ends at
  the start of a conversation. Both services count their calls.
\<close>

definition ex_environ :: environ where
  "ex_environ = [py ''ANTHROPIC_API_KEY'' \<mapsto> py ''sk-test'']"

definition ex_chatbot :: AnthropicChatbot where
  "ex_chatbot =
     \<lparr> config = ChatbotConfig_init,
       llm = \<lparr> model = model_name ChatbotConfig_init,
               llm_temperature = temperature ChatbotConfig_init,
               llm_max_tokens = max_tokens ChatbotConfig_init,
               anthropic_api_key = py ''sk-test'' \<rparr>,
       prompt = setup_prompt_template ChatbotConfig_init \<rparr>"

definition answering :: "nat invoker" where
  "answering w l ms = (Inr (py ''ok''), Suc w)"

definition failing :: "nat invoker" where
  "failing w l ms = (Inl (Exception (py ''overloaded'')), Suc w)"

definition ex_terminal :: "nat terminal" where
  "ex_terminal =
     \<lparr> self = \<lparr> cli_config = ChatbotConfig_init, chatbot = ex_chatbot, chat_history = [] \<rparr>,
       stdout = [], world = 0 \<rparr>"

definition ex_web :: "nat web" where
  "ex_web = \<lparr> os_environ = ex_environ, messages = Some [], page = [], service = 0 \<rparr>"

definition ex_ui :: "pystr option \<Rightarrow> ui_inputs" where
  "ex_ui typed =
     \<lparr> st_fault = None,
       api_key_input = py ''sk-test'',
       model_choice = py ''claude-3-sonnet-20240229'',
       temperature_input = 7 / 10,
       max_tokens_input = 1000,
       system_prompt_input = py ''You are a helpful AI assistant.'',
       clear_clicked = False,
       chat_input = typed \<rparr>"

section \<open>Prompt assembly\<close>

lemma format_messages_template:
  "format_messages (setup_prompt_template cfg) inp hist
     = SystemMessage (system_prompt cfg) # hist @ [HumanMessage inp]"
  by (simp add: format_messages_def setup_prompt_template_def)

lemma init_prompt:
  "AnthropicChatbot_init env cfg = Inr cb \<Longrightarrow> prompt cb = setup_prompt_template cfg \<and> config cb = cfg"
  by (auto simp: AnthropicChatbot_init_def split: sum.splits)

lemma ex_init: "AnthropicChatbot_init ex_environ ChatbotConfig_init = Inr ex_chatbot"
  by (simp add: AnthropicChatbot_init_def setup_llm_def ex_environ_def ex_chatbot_def py_def)

lemma message_role_to_message:
  "role m = py ''user'' \<or> role m = py ''assistant'' \<Longrightarrow> message_role (to_message m) = role m"
  by (auto simp: to_message_def)

lemma message_content_to_message: "message_content (to_message m) = content m"
  by (simp add: to_message_def)

text \<open>
  C3, as stated, asks that every turn keeps its role. A turn of role \<open>system\<close> in the
  history does not: \<open>get_response\<close> sends it as an assistant message.
\<close>

theorem assemble_counterexample:
  "AnthropicChatbot_init ex_environ ChatbotConfig_init = Inr ex_chatbot \<and>
   map message_role (chain_messages ex_chatbot (py ''c'') (Some [\<lparr> role = py ''system'', content = py ''x'' \<rparr>]))
     \<noteq> py ''system'' # map role [\<lparr> role = py ''system'', content = py ''x'' \<rparr>] @ [py ''user'']"
  by (simp add: ex_init)
     (simp add: chain_messages_def ex_chatbot_def format_messages_template convert_history_def to_message_def py_def)

text \<open>
  C3, as amended. For a chatbot built from configuration \<open>cfg\<close>, the messages sent for a
  history \<open>h\<close> and a new text \<open>t\<close> are: one system message holding the system prompt
  (whatever it is, the empty text included), then the turns of \<open>h\<close> in their order with
  their contents, then one human message holding \<open>t\<close>, and nothing else, so \<open>t\<close> is
  there once and an empty history gives the two messages system, user. A turn whose
  role is \<open>user\<close> becomes a user message and every other turn an assistant message, so
  the roles are kept when \<open>h\<close> holds user and assistant turns only.
\<close>

theorem assemble_order:
  assumes "AnthropicChatbot_init env cfg = Inr cb"
  shows "chain_messages cb t (Some h)
           = SystemMessage (system_prompt cfg) # map to_message h @ [HumanMessage t]
         \<and> get_response invoke cb t (Some h) w
           = invoke w (llm cb) (SystemMessage (system_prompt cfg) # map to_message h @ [HumanMessage t])
         \<and> map message_content (chain_messages cb t (Some h))
           = system_prompt cfg # map content h @ [t]
         \<and> ((\<forall>m \<in> set h. role m = py ''user'' \<or> role m = py ''assistant'') \<longrightarrow>
              map message_role (chain_messages cb t (Some h))
                = py ''system'' # map role h @ [py ''user''])
         \<and> (\<forall>m \<in> set h. role m \<noteq> py ''user'' \<longrightarrow> to_message m = AIMessage (content m))
         \<and> length (chain_messages cb t (Some h)) = length h + 2
         \<and> chain_messages cb t (Some []) = [SystemMessage (system_prompt cfg), HumanMessage t]"
proof -
  from assms have p: "prompt cb = setup_prompt_template cfg"
    by (simp add: init_prompt)
  have eq: "chain_messages cb t (Some h)
              = SystemMessage (system_prompt cfg) # map to_message h @ [HumanMessage t]" for h
    by (simp add: chain_messages_def p format_messages_template convert_history_def)
  have cont: "map message_content (chain_messages cb t (Some h)) = system_prompt cfg # map content h @ [t]"
    by (simp add: eq message_content_to_message)
  have roles: "map message_role (chain_messages cb t (Some h)) = py ''system'' # map role h @ [py ''user'']"
    if "\<forall>m \<in> set h. role m = py ''user'' \<or> role m = py ''assistant''"
    using that by (simp add: eq message_role_to_message)
  have other: "\<forall>m \<in> set h. role m \<noteq> py ''user'' \<longrightarrow> to_message m = AIMessage (content m)"
    by (simp add: to_message_def)
  show ?thesis
    using eq cont roles other by (simp add: get_response_def)
qed

theorem assemble_order_witness:
  "AnthropicChatbot_init ex_environ ChatbotConfig_init = Inr ex_chatbot \<and>
   list_all (\<lambda>m. role m = py ''user'' \<or> role m = py ''assistant'')
     [\<lparr> role = py ''user'', content = py ''a'' \<rparr>, \<lparr> role = py ''assistant'', content = py ''b'' \<rparr>] \<and>
   chain_messages ex_chatbot (py ''c'')
      (Some [\<lparr> role = py ''user'', content = py ''a'' \<rparr>, \<lparr> role = py ''assistant'', content = py ''b'' \<rparr>])
     = [SystemMessage (system_prompt ChatbotConfig_init), HumanMessage (py ''a''),
        AIMessage (py ''b''), HumanMessage (py ''c'')] \<and>
   map message_role (chain_messages ex_chatbot (py ''c'')
      (Some [\<lparr> role = py ''user'', content = py ''a'' \<rparr>, \<lparr> role = py ''assistant'', content = py ''b'' \<rparr>]))
     = [py ''system'', py ''user'', py ''assistant'', py ''user'']"
proof -
  let ?h = "[\<lparr> role = py ''user'', content = py ''a'' \<rparr>, \<lparr> role = py ''assistant'', content = py ''b'' \<rparr>]"
  have ok: "\<forall>m \<in> set ?h. role m = py ''user'' \<or> role m = py ''assistant''"
    by simp
  have neq: "py ''assistant'' \<noteq> py ''user''"
    by (simp add: py_def)
  note th = assemble_order [OF ex_init, where t = "py ''c''" and h = ?h and invoke = answering and w = 0]
  from th have a: "chain_messages ex_chatbot (py ''c'') (Some ?h)
      = SystemMessage (system_prompt ChatbotConfig_init) # map to_message ?h @ [HumanMessage (py ''c'')]"
    by (rule conjunct1)
  from th have "(\<forall>m \<in> set ?h. role m = py ''user'' \<or> role m = py ''assistant'') \<longrightarrow>
      map message_role (chain_messages ex_chatbot (py ''c'') (Some ?h))
        = py ''system'' # map role ?h @ [py ''user'']"
    by (elim conjE)
  from this ok have b: "map message_role (chain_messages ex_chatbot (py ''c'') (Some ?h))
      = py ''system'' # map role ?h @ [py ''user'']"
    by (rule mp)
  from a neq have a': "chain_messages ex_chatbot (py ''c'') (Some ?h)
      = [SystemMessage (system_prompt ChatbotConfig_init), HumanMessage (py ''a''),
         AIMessage (py ''b''), HumanMessage (py ''c'')]"
    by (simp add: to_message_def)
  from b have b': "map message_role (chain_messages ex_chatbot (py ''c'') (Some ?h))
      = [py ''system'', py ''user'', py ''assistant'', py ''user'']"
    by simp
  have ok': "list_all (\<lambda>m. role m = py ''user'' \<or> role m = py ''assistant'') ?h"
    by simp
  show ?thesis
    using ex_init ok' a' b' by blast
qed


section \<open>Sending one input\<close>

lemma py_nonempty [simp]: "py (c # cs) \<noteq> []" "[] \<noteq> py (c # cs)"
  by (simp_all add: py_def)

lemma strip_blank:
  assumes "\<forall>c \<in> set line. isspace c"
  shows "strip line = []"
proof -
  from assms have d: "dropWhile isspace line = []"
    by simp
  show ?thesis
    unfolding strip_def d by simp
qed

lemma lower_Nil [simp]: "lower [] = []"
  by (simp add: lower_def)

text \<open>
  C1. Take a non-empty text and a call to the service that succeeds with \<open>reply\<close>. In the
  widget front end (lines 163 to 177, on a transcript \<open>h\<close>) and in the terminal front end
  (lines 217 to 226) the transcript afterwards is the one before followed by a user turn
  holding the text and then an assistant turn holding the reply: two turns more.
\<close>

theorem submit_success_appends_two:
  assumes "user_text \<noteq> []"
  shows "(messages s = Some h \<and>
          get_response invoke cb user_text (Some h) (service s) = (Inr reply, w') \<longrightarrow>
            widget_submit invoke cb (Some user_text) s
              = (Finished,
                 s\<lparr> messages := Some (h @ [\<lparr> role = py ''user'', content = user_text \<rparr>,
                                          \<lparr> role = py ''assistant'', content = reply \<rparr>]),
                    page := page s @ [Chat_markdown (py ''user'') user_text,
                                      Chat_markdown (py ''assistant'') reply],
                    service := w' \<rparr>))
       \<and> (get_response invoke (chatbot (self t)) user_text (Some (chat_history (self t))) (world t)
            = (Inr reply, w') \<longrightarrow>
            fst (cli_submit invoke user_text t) = None \<and>
            chat_history (self (snd (cli_submit invoke user_text t)))
              = chat_history (self t) @ [\<lparr> role = py ''user'', content = user_text \<rparr>,
                                         \<lparr> role = py ''assistant'', content = reply \<rparr>] \<and>
            length (chat_history (self (snd (cli_submit invoke user_text t))))
              = length (chat_history (self t)) + 2)"
  using assms by (simp add: widget_submit_def cli_submit_def)

theorem submit_success_appends_two_witness:
  "py ''hi'' \<noteq> [] \<and> messages ex_web = Some [] \<and>
   get_response answering ex_chatbot (py ''hi'') (Some []) (service ex_web) = (Inr (py ''ok''), Suc 0) \<and>
   widget_submit answering ex_chatbot (Some (py ''hi'')) ex_web
     = (Finished,
        ex_web\<lparr> messages := Some [\<lparr> role = py ''user'', content = py ''hi'' \<rparr>,
                                   \<lparr> role = py ''assistant'', content = py ''ok'' \<rparr>],
                page := page ex_web @ [Chat_markdown (py ''user'') (py ''hi''),
                                       Chat_markdown (py ''assistant'') (py ''ok'')],
                service := Suc 0 \<rparr>) \<and>
   get_response answering (chatbot (self ex_terminal)) (py ''hi'')
     (Some (chat_history (self ex_terminal))) (world ex_terminal) = (Inr (py ''ok''), Suc 0) \<and>
   chat_history (self (snd (cli_submit answering (py ''hi'') ex_terminal)))
     = [\<lparr> role = py ''user'', content = py ''hi'' \<rparr>, \<lparr> role = py ''assistant'', content = py ''ok'' \<rparr>]"
proof -
  have n: "py ''hi'' \<noteq> []" by simp
  have m: "messages ex_web = Some []" by (simp add: ex_web_def)
  have g1: "get_response answering ex_chatbot (py ''hi'') (Some []) (service ex_web)
              = (Inr (py ''ok''), Suc 0)"
    by (simp add: get_response_def answering_def ex_web_def)
  have g2: "get_response answering (chatbot (self ex_terminal)) (py ''hi'')
              (Some (chat_history (self ex_terminal))) (world ex_terminal) = (Inr (py ''ok''), Suc 0)"
    by (simp add: get_response_def answering_def ex_terminal_def)
  have h0: "chat_history (self ex_terminal) = []" by (simp add: ex_terminal_def)
  note th = submit_success_appends_two [OF n, where s = ex_web and h = "[]" and invoke = answering
      and cb = ex_chatbot and reply = "py ''ok''" and w' = "Suc 0" and t = ex_terminal]
  from th m g1 have w: "widget_submit answering ex_chatbot (Some (py ''hi'')) ex_web
     = (Finished,
        ex_web\<lparr> messages := Some [\<lparr> role = py ''user'', content = py ''hi'' \<rparr>,
                                   \<lparr> role = py ''assistant'', content = py ''ok'' \<rparr>],
                page := page ex_web @ [Chat_markdown (py ''user'') (py ''hi''),
                                       Chat_markdown (py ''assistant'') (py ''ok'')],
                service := Suc 0 \<rparr>)"
    by simp
  from th g2 h0 have c: "chat_history (self (snd (cli_submit answering (py ''hi'') ex_terminal)))
     = [\<lparr> role = py ''user'', content = py ''hi'' \<rparr>, \<lparr> role = py ''assistant'', content = py ''ok'' \<rparr>]"
    by simp
  from n m g1 w g2 c show ?thesis by blast
qed

text \<open>
  C2, as stated, asks that after a failed call the transcript holds the user turn in
  both front ends. The terminal front end appends both turns only after the call has
  returned, so there the user turn is not in the transcript.
\<close>

theorem submit_failure_counterexample:
  "py ''hi'' \<noteq> [] \<and>
   get_response failing (chatbot (self ex_terminal)) (py ''hi'')
     (Some (chat_history (self ex_terminal))) (world ex_terminal)
     = (Inl (Exception (py ''overloaded'')), Suc 0) \<and>
   \<lparr> role = py ''user'', content = py ''hi'' \<rparr>
     \<notin> set (chat_history (self (snd (cli_submit failing (py ''hi'') ex_terminal))))"
  by (simp add: cli_submit_def get_response_def failing_def ex_terminal_def)

text \<open>
  C2, as amended. Take a non-empty text and a call to the service that raises an
  exception \<open>e\<close> of class Exception. The widget front end keeps the user turn it has
  appended, adds no assistant turn, and shows \<open>Error: e\<close> on the page. The terminal front
  end leaves the transcript as it was and prints \<open>Error: e\<close>. Neither lets the exception
  out.
\<close>

theorem submit_failure_surfaced:
  assumes "user_text \<noteq> []" and "is_Exception e"
  shows "(messages s = Some h \<and>
          get_response invoke cb user_text (Some h) (service s) = (Inl e, w') \<longrightarrow>
            widget_submit invoke cb (Some user_text) s
              = (Finished,
                 s\<lparr> messages := Some (h @ [\<lparr> role = py ''user'', content = user_text \<rparr>]),
                    page := page s @ [Chat_markdown (py ''user'') user_text,
                                      Chat_error (py ''assistant'') (py ''Error: '' @ str_exc e)],
                    service := w' \<rparr>))
       \<and> (get_response invoke (chatbot (self t)) user_text (Some (chat_history (self t))) (world t)
            = (Inl e, w') \<longrightarrow>
            cli_submit invoke user_text t
              = (None, t\<lparr> stdout := stdout t @ [py ''Error: '' @ str_exc e], world := w' \<rparr>) \<and>
            chat_history (self (snd (cli_submit invoke user_text t))) = chat_history (self t))"
  using assms by (simp add: widget_submit_def cli_submit_def)

theorem submit_failure_surfaced_witness:
  "py ''hi'' \<noteq> [] \<and> is_Exception (Exception (py ''overloaded'')) \<and> messages ex_web = Some [] \<and>
   get_response failing ex_chatbot (py ''hi'') (Some []) (service ex_web)
     = (Inl (Exception (py ''overloaded'')), Suc 0) \<and>
   widget_submit failing ex_chatbot (Some (py ''hi'')) ex_web
     = (Finished,
        ex_web\<lparr> messages := Some [\<lparr> role = py ''user'', content = py ''hi'' \<rparr>],
                page := page ex_web @ [Chat_markdown (py ''user'') (py ''hi''),
                                       Chat_error (py ''assistant'') (py ''Error: '' @ py ''overloaded'')],
                service := Suc 0 \<rparr>) \<and>
   get_response failing (chatbot (self ex_terminal)) (py ''hi'')
     (Some (chat_history (self ex_terminal))) (world ex_terminal)
     = (Inl (Exception (py ''overloaded'')), Suc 0) \<and>
   cli_submit failing (py ''hi'') ex_terminal
     = (None, ex_terminal\<lparr> stdout := stdout ex_terminal @ [py ''Error: '' @ py ''overloaded''],
                            world := Suc 0 \<rparr>)"
proof -
  have n: "py ''hi'' \<noteq> []" by simp
  have x: "is_Exception (Exception (py ''overloaded''))" by simp
  have m: "messages ex_web = Some []" by (simp add: ex_web_def)
  have g1: "get_response failing ex_chatbot (py ''hi'') (Some []) (service ex_web)
              = (Inl (Exception (py ''overloaded'')), Suc 0)"
    by (simp add: get_response_def failing_def ex_web_def)
  have g2: "get_response failing (chatbot (self ex_terminal)) (py ''hi'')
              (Some (chat_history (self ex_terminal))) (world ex_terminal)
              = (Inl (Exception (py ''overloaded'')), Suc 0)"
    by (simp add: get_response_def failing_def ex_terminal_def)
  note th = submit_failure_surfaced [OF n x, where s = ex_web and h = "[]" and invoke = failing
      and cb = ex_chatbot and w' = "Suc 0" and t = ex_terminal]
  from th m g1 have w: "widget_submit failing ex_chatbot (Some (py ''hi'')) ex_web
     = (Finished,
        ex_web\<lparr> messages := Some [\<lparr> role = py ''user'', content = py ''hi'' \<rparr>],
                page := page ex_web @ [Chat_markdown (py ''user'') (py ''hi''),
                                       Chat_error (py ''assistant'') (py ''Error: '' @ py ''overloaded'')],
                service := Suc 0 \<rparr>)"
    by simp
  from th g2 have c: "cli_submit failing (py ''hi'') ex_terminal
     = (None, ex_terminal\<lparr> stdout := stdout ex_terminal @ [py ''Error: '' @ py ''overloaded''],
                            world := Suc 0 \<rparr>)"
    by simp
  from n x m g1 w g2 c show ?thesis by blast
qed

text \<open>
  C4, as stated, asks that a text of whitespace only changes nothing in both front ends.
  The widget front end tests the chat input for emptiness only: a single space is
  appended to the transcript and sent to the service.
\<close>

theorem blank_input_counterexample:
  "list_all isspace (py '' '') \<and>
   messages (snd (widget_submit answering ex_chatbot (Some (py '' '')) ex_web))
     = Some [\<lparr> role = py ''user'', content = py '' '' \<rparr>, \<lparr> role = py ''assistant'', content = py ''ok'' \<rparr>] \<and>
   messages (snd (widget_submit answering ex_chatbot (Some (py '' '')) ex_web)) \<noteq> messages ex_web \<and>
   service (snd (widget_submit answering ex_chatbot (Some (py '' '')) ex_web)) \<noteq> service ex_web"
  by (simp add: widget_submit_def get_response_def answering_def ex_web_def)
     (simp add: py_def isspace_def)

text \<open>
  C4, as amended. In the terminal front end a line that is empty or holds whitespace only
  passes through the loop body with no effect but the prompt of \<open>input\<close>: the transcript
  and the service are untouched and no error is printed. In the widget front end an
  absent or empty chat input leaves everything as it was.
\<close>

theorem blank_input_is_noop:
  "((\<forall>c \<in> set line. isspace c) \<longrightarrow>
      run_iteration invoke line t = (Next, t\<lparr> stdout := stdout t @ [py ''\<newline>You: ''] \<rparr>))
   \<and> widget_submit invoke cb None s = (Finished, s)
   \<and> widget_submit invoke cb (Some []) s = (Finished, s)"
  by (simp add: run_iteration_def strip_blank widget_submit_def)

theorem blank_input_is_noop_witness:
  "list_all isspace (py ''   '') \<and>
   run_iteration answering (py ''   '') ex_terminal
     = (Next, ex_terminal\<lparr> stdout := stdout ex_terminal @ [py ''\<newline>You: ''] \<rparr>)"
proof -
  have b: "\<forall>c \<in> set (py ''   ''). isspace c"
    by (simp add: py_def isspace_def)
  then have b': "list_all isspace (py ''   '')"
    by (simp add: list_all_iff)
  from blank_input_is_noop [of "py ''   ''" answering ex_terminal] b
  have "run_iteration answering (py ''   '') ex_terminal
     = (Next, ex_terminal\<lparr> stdout := stdout ex_terminal @ [py ''\<newline>You: ''] \<rparr>)"
    by blast
  with b' show ?thesis by blast
qed

section \<open>Reserved commands\<close>

lemma main_clear_text:
  "messages (snd (main answering (ex_ui (Some (py ''clear''))) ex_web))
     = Some [\<lparr> role = py ''user'', content = py ''clear'' \<rparr>, \<lparr> role = py ''assistant'', content = py ''ok'' \<rparr>]"
  by (simp add: main_def ex_ui_def main_chat_def ex_web_def AnthropicChatbot_init_def setup_llm_def widget_submit_def get_response_def answering_def Let_def)


text \<open>
  C7, as stated, asks that both front ends treat the text \<open>clear\<close> as a command. The
  widget front end has no text commands: the text \<open>clear\<close> is appended to the transcript
  and sent to the service like any other.
\<close>

theorem terminal_commands_counterexample:
  "lower (strip (py ''clear'')) = py ''clear'' \<and>
   messages (snd (main answering (ex_ui (Some (py ''clear''))) ex_web))
     = Some [\<lparr> role = py ''user'', content = py ''clear'' \<rparr>, \<lparr> role = py ''assistant'', content = py ''ok'' \<rparr>] \<and>
   service (snd (main answering (ex_ui (Some (py ''clear''))) ex_web)) = Suc 0"
proof -
  have "lower (strip (py ''clear'')) = py ''clear''"
    by (simp add: lower_def strip_def py_def isspace_def lower_cp_def)
  moreover have "service (snd (main answering (ex_ui (Some (py ''clear''))) ex_web)) = Suc 0"
    by (simp add: main_def ex_ui_def main_chat_def ex_web_def AnthropicChatbot_init_def
        setup_llm_def widget_submit_def get_response_def answering_def Let_def)
  ultimately show ?thesis
    using main_clear_text by blast
qed

text \<open>
  C7, as amended. In the terminal front end, a line whose stripped, lowercased form is
  \<open>clear\<close> empties the transcript without calling the service; one whose form is \<open>quit\<close>
  ends the loop without calling it, whatever lines follow; any other line whose stripped
  form is not empty is sent, stripped. In the widget front end clearing is a button, which
  empties the transcript without calling the service, and every non-empty chat input is
  sent.
\<close>

theorem terminal_commands:
  "(lower (strip line) = py ''clear'' \<longrightarrow>
      run_iteration invoke line t
        = (Next, cli_clear (t\<lparr> stdout := stdout t @ [py ''\<newline>You: ''] \<rparr>)) \<and>
      chat_history (self (snd (run_iteration invoke line t))) = [] \<and>
      world (snd (run_iteration invoke line t)) = world t)
   \<and> (lower (strip line) = py ''quit'' \<longrightarrow>
      run_iteration invoke line t
        = (Break, t\<lparr> stdout := stdout t @ [py ''\<newline>You: '', py ''Goodbye!''] \<rparr>) \<and>
      run_loop invoke (line # rest) t
        = (None, t\<lparr> stdout := stdout t @ [py ''\<newline>You: '', py ''Goodbye!''] \<rparr>))
   \<and> (lower (strip line) \<noteq> py ''quit'' \<and> lower (strip line) \<noteq> py ''clear'' \<and> strip line \<noteq> [] \<longrightarrow>
      run_iteration invoke line t
        = (case cli_submit invoke (strip line) (t\<lparr> stdout := stdout t @ [py ''\<newline>You: ''] \<rparr>) of
             (None, t') \<Rightarrow> (Next, t')
           | (Some e, t') \<Rightarrow> (Raised e, t')))
   \<and> (st_fault ui = None \<and> clear_clicked ui \<longrightarrow>
      fst (main invoke ui s) = Rerun \<and>
      messages (snd (main invoke ui s)) = Some [] \<and>
      service (snd (main invoke ui s)) = service s)
   \<and> (messages s = Some h \<and> u \<noteq> [] \<longrightarrow>
      service (snd (widget_submit invoke cb (Some u) s))
        = snd (get_response invoke cb u (Some h) (service s)))"
proof -
  have ne: "py ''quit'' \<noteq> py ''clear''"
    by (simp add: py_def)
  show ?thesis
    using ne by (auto simp: run_iteration_def cli_clear_def Let_def main_def widget_clear_def
        widget_submit_def split: sum.splits prod.splits)
qed

theorem terminal_commands_witness:
  "lower (strip (py '' Clear '')) = py ''clear'' \<and>
   chat_history (self (snd (run_iteration answering (py '' Clear '') ex_terminal))) = [] \<and>
   lower (strip (py ''QUIT'')) = py ''quit'' \<and>
   fst (run_iteration answering (py ''QUIT'') ex_terminal) = Break \<and>
   lower (strip (py ''hello'')) \<noteq> py ''quit'' \<and> lower (strip (py ''hello'')) \<noteq> py ''clear'' \<and>
   strip (py ''hello'') \<noteq> [] \<and>
   chat_history (self (snd (run_iteration answering (py ''hello'') ex_terminal)))
     = [\<lparr> role = py ''user'', content = py ''hello'' \<rparr>, \<lparr> role = py ''assistant'', content = py ''ok'' \<rparr>]"
proof -
  have c: "lower (strip (py '' Clear '')) = py ''clear''"
    by (simp add: lower_def strip_def py_def isspace_def lower_cp_def)
  have q: "lower (strip (py ''QUIT'')) = py ''quit''"
    by (simp add: lower_def strip_def py_def isspace_def lower_cp_def)
  have s: "strip (py ''hello'') = py ''hello''"
    by (simp add: strip_def py_def isspace_def)
  have l: "lower (py ''hello'') = py ''hello''"
    by (simp add: lower_def py_def lower_cp_def)
  have h1: "py ''hello'' \<noteq> py ''quit''" and h2: "py ''hello'' \<noteq> py ''clear''"
    by (simp_all add: py_def)
  from terminal_commands [of "py '' Clear ''" answering ex_terminal] c
  have r1: "chat_history (self (snd (run_iteration answering (py '' Clear '') ex_terminal))) = []"
    by blast
  from terminal_commands [of "py ''QUIT''" answering ex_terminal] q
  have r2: "fst (run_iteration answering (py ''QUIT'') ex_terminal) = Break"
    by simp
  from terminal_commands [of "py ''hello''" answering ex_terminal] s l h1 h2
  have "run_iteration answering (py ''hello'') ex_terminal
        = (case cli_submit answering (py ''hello'')
                  (ex_terminal\<lparr> stdout := stdout ex_terminal @ [py ''\<newline>You: ''] \<rparr>) of
             (None, t') \<Rightarrow> (Next, t')
           | (Some e, t') \<Rightarrow> (Raised e, t'))"
    by simp
  then have r3: "chat_history (self (snd (run_iteration answering (py ''hello'') ex_terminal)))
     = [\<lparr> role = py ''user'', content = py ''hello'' \<rparr>, \<lparr> role = py ''assistant'', content = py ''ok'' \<rparr>]"
    by (simp add: cli_submit_def get_response_def answering_def ex_terminal_def)
  from c q s l h1 h2 r1 r2 r3 show ?thesis by simp
qed


section \<open>Building a chatbot\<close>

lemma setup_llm_fails:
  "(\<exists>e. setup_llm env cfg = Inl e)
     \<longleftrightarrow> (env (py ''ANTHROPIC_API_KEY'') = None \<or> env (py ''ANTHROPIC_API_KEY'') = Some [])"
  by (auto simp: setup_llm_def split: option.splits)

lemma setup_llm_error:
  "setup_llm env cfg = Inl e \<Longrightarrow>
     e = ValueError (py ''ANTHROPIC_API_KEY environment variable is required'')"
  by (auto simp: setup_llm_def split: option.splits if_splits)

text \<open>
  C5. Building a chatbot, alone or inside the terminal front end, fails exactly when the
  environment variable \<open>ANTHROPIC_API_KEY\<close> is absent or empty, and the failure is the
  ValueError of \<open>setup_llm\<close>. A failure yields no object, and when the script builds the
  terminal front end the failure ends the process before \<open>run\<close> starts, so nothing has
  been sent.
\<close>

theorem missing_key_fails_construction:
  "((\<exists>e. AnthropicChatbot_init env cfg = Inl e)
      \<longleftrightarrow> (env (py ''ANTHROPIC_API_KEY'') = None \<or> env (py ''ANTHROPIC_API_KEY'') = Some []))
   \<and> ((\<exists>e. CLIChatbot_init env = Inl e)
      \<longleftrightarrow> (env (py ''ANTHROPIC_API_KEY'') = None \<or> env (py ''ANTHROPIC_API_KEY'') = Some []))
   \<and> (AnthropicChatbot_init env cfg = Inl e \<longrightarrow>
        e = ValueError (py ''ANTHROPIC_API_KEY environment variable is required''))
   \<and> (CLIChatbot_init env = Inl e \<longrightarrow>
        e = ValueError (py ''ANTHROPIC_API_KEY environment variable is required''))
   \<and> (CLIChatbot_init (os_environ s) = Inl e \<longrightarrow>
        cli_fallback invoke stdin printed s = Uncaught e)"
proof -
  have a: "(\<exists>e. AnthropicChatbot_init env cfg = Inl e) \<longleftrightarrow> (\<exists>e. setup_llm env cfg = Inl e)" for cfg
    by (auto simp: AnthropicChatbot_init_def split: sum.splits)
  have c: "(\<exists>e. CLIChatbot_init env = Inl e) \<longleftrightarrow> (\<exists>e. AnthropicChatbot_init env ChatbotConfig_init = Inl e)"
    by (auto simp: CLIChatbot_init_def split: sum.splits)
  have ae: "AnthropicChatbot_init env cfg = Inl e \<Longrightarrow> setup_llm env cfg = Inl e" for cfg
    by (auto simp: AnthropicChatbot_init_def split: sum.splits)
  have ce: "CLIChatbot_init env = Inl e \<Longrightarrow> AnthropicChatbot_init env ChatbotConfig_init = Inl e"
    by (auto simp: CLIChatbot_init_def split: sum.splits)
  have f: "CLIChatbot_init (os_environ s) = Inl e \<Longrightarrow> cli_fallback invoke stdin printed s = Uncaught e"
    by (simp add: cli_fallback_def)
  show ?thesis
    using a c setup_llm_fails [of env] setup_llm_error ae ce f by blast
qed

theorem missing_key_fails_construction_witness:
  "AnthropicChatbot_init Map.empty ChatbotConfig_init
     = Inl (ValueError (py ''ANTHROPIC_API_KEY environment variable is required'')) \<and>
   CLIChatbot_init Map.empty
     = Inl (ValueError (py ''ANTHROPIC_API_KEY environment variable is required'')) \<and>
   AnthropicChatbot_init ex_environ ChatbotConfig_init = Inr ex_chatbot"
proof -
  note th = missing_key_fails_construction [where env = Map.empty and cfg = ChatbotConfig_init]
  have none: "(Map.empty :: environ) (py ''ANTHROPIC_API_KEY'') = None" by simp
  from th none obtain e1 where e1: "AnthropicChatbot_init Map.empty ChatbotConfig_init = Inl e1"
    by blast
  from th none obtain e2 where e2: "CLIChatbot_init Map.empty = Inl e2"
    by blast
  from missing_key_fails_construction [where env = Map.empty and cfg = ChatbotConfig_init and e = e1] e1
  have "e1 = ValueError (py ''ANTHROPIC_API_KEY environment variable is required'')" by blast
  moreover
  from missing_key_fails_construction [where env = Map.empty and cfg = ChatbotConfig_init and e = e2] e2
  have "e2 = ValueError (py ''ANTHROPIC_API_KEY environment variable is required'')" by blast
  ultimately show ?thesis
    using e1 e2 ex_init by simp
qed

section \<open>Choosing the front end\<close>

text \<open>
  C6. With every module but \<open>streamlit\<close> importable, the script does not reach its
  \<open>try\<close> block: the import at line 6 raises ImportError, nothing catches it, and the
  terminal front end is never started.
\<close>

theorem script_without_streamlit:
  "script (\<lambda>m. m \<noteq> py ''streamlit'') invoke ui stdin s
     = Uncaught (ImportError (py ''No module named '' @ [39] @ py ''streamlit'' @ [39]))"
proof -
  have "py ''os'' \<noteq> py ''streamlit''" "py ''typing'' \<noteq> py ''streamlit''"
    by (simp_all add: py_def)
  then have "import_modules (\<lambda>m. m \<noteq> py ''streamlit'') module_imports
               = Some (ImportError (py ''No module named '' @ [39] @ py ''streamlit'' @ [39]))"
    by (simp add: module_imports_def)
  then show ?thesis
    by (simp add: script_def)
qed

section \<open>What the operations leave alone\<close>

lemma run_iteration_config:
  "cli_config (self (snd (run_iteration invoke line t))) = cli_config (self t)"
  by (auto simp: run_iteration_def cli_submit_def cli_clear_def Let_def
      split: prod.splits sum.splits option.splits)

lemma run_iteration_chatbot:
  "chatbot (self (snd (run_iteration invoke line t))) = chatbot (self t)"
  by (auto simp: run_iteration_def cli_submit_def cli_clear_def Let_def
      split: prod.splits sum.splits option.splits)

lemma run_loop_frame:
  "cli_config (self (snd (run_loop invoke lines t))) = cli_config (self t)
   \<and> chatbot (self (snd (run_loop invoke lines t))) = chatbot (self t)"
proof (induction lines arbitrary: t)
  case Nil
  show ?case by simp
next
  case (Cons line rest)
  obtain f t' where it: "run_iteration invoke line t = (f, t')"
    by (cases "run_iteration invoke line t")
  have fr: "cli_config (self t') = cli_config (self t) \<and> chatbot (self t') = chatbot (self t)"
    using run_iteration_config [of invoke line t] run_iteration_chatbot [of invoke line t] it
    by simp
  show ?case
  proof (cases f)
    case Next
    with it fr Cons.IH [of t'] show ?thesis by simp
  next
    case Break
    with it fr show ?thesis by simp
  next
    case (Raised e)
    with it fr show ?thesis by simp
  qed
qed

lemma run_frame:
  "cli_config (self (snd (run invoke stdin t))) = cli_config (self t)
   \<and> chatbot (self (snd (run invoke stdin t))) = chatbot (self t)"
  using run_loop_frame [of invoke stdin] by (simp add: run_def)

text \<open>
  C9. Sending an input, clearing, a pass through the loop body and the whole loop of the
  terminal front end leave the configuration and the chatbot (its configuration, its
  client with model, temperature, token limit and key, and its template with the system
  prompt) as they were. In the widget front end sending and clearing leave the process
  environment, where the key is, as it was.
\<close>

theorem configuration_unchanged:
  "cli_config (self (snd (cli_submit invoke user_text t))) = cli_config (self t)
   \<and> chatbot (self (snd (cli_submit invoke user_text t))) = chatbot (self t)
   \<and> cli_config (self (cli_clear t)) = cli_config (self t)
   \<and> chatbot (self (cli_clear t)) = chatbot (self t)
   \<and> cli_config (self (snd (run_iteration invoke line t))) = cli_config (self t)
   \<and> chatbot (self (snd (run_iteration invoke line t))) = chatbot (self t)
   \<and> cli_config (self (snd (run invoke stdin t))) = cli_config (self t)
   \<and> chatbot (self (snd (run invoke stdin t))) = chatbot (self t)
   \<and> os_environ (snd (widget_submit invoke cb chat_in s)) = os_environ s
   \<and> os_environ (snd (widget_clear s)) = os_environ s"
proof -
  have s1: "cli_config (self (snd (cli_submit invoke user_text t))) = cli_config (self t)"
    by (simp add: cli_submit_def split: prod.splits sum.splits)
  have s2: "chatbot (self (snd (cli_submit invoke user_text t))) = chatbot (self t)"
    by (simp add: cli_submit_def split: prod.splits sum.splits)
  have c: "cli_config (self (cli_clear t)) = cli_config (self t)"
          "chatbot (self (cli_clear t)) = chatbot (self t)"
    by (simp_all add: cli_clear_def)
  have w1: "os_environ (snd (widget_submit invoke cb chat_in s)) = os_environ s"
    by (simp add: widget_submit_def Let_def split: option.splits prod.splits sum.splits)
  have w2: "os_environ (snd (widget_clear s)) = os_environ s"
    by (simp add: widget_clear_def)
  show ?thesis
    using s1 s2 c w1 w2 run_iteration_config [of invoke line t]
      run_iteration_chatbot [of invoke line t] run_frame [of invoke stdin t]
    by simp
qed

theorem configuration_unchanged_witness:
  "chatbot (self (snd (run answering [py ''hello'', py ''clear'', py ''quit''] ex_terminal))) = ex_chatbot \<and>
   cli_config (self (snd (run answering [py ''hello'', py ''clear'', py ''quit''] ex_terminal)))
     = ChatbotConfig_init \<and>
   os_environ (snd (widget_submit failing ex_chatbot (Some (py ''hi'')) ex_web)) = ex_environ"
proof -
  note th = configuration_unchanged [where invoke = answering and t = ex_terminal
      and stdin = "[py ''hello'', py ''clear'', py ''quit'']"]
  have a: "chatbot (self ex_terminal) = ex_chatbot" "cli_config (self ex_terminal) = ChatbotConfig_init"
    by (simp_all add: ex_terminal_def)
  have b: "os_environ ex_web = ex_environ"
    by (simp add: ex_web_def)
  from th a have "chatbot (self (snd (run answering [py ''hello'', py ''clear'', py ''quit''] ex_terminal))) = ex_chatbot"
    "cli_config (self (snd (run answering [py ''hello'', py ''clear'', py ''quit''] ex_terminal))) = ChatbotConfig_init"
    by simp_all
  moreover from configuration_unchanged [where invoke = failing and cb = ex_chatbot
      and chat_in = "Some (py ''hi'')" and s = ex_web] b
  have "os_environ (snd (widget_submit failing ex_chatbot (Some (py ''hi'')) ex_web)) = ex_environ"
    by simp
  ultimately show ?thesis by blast
qed

section \<open>Clearing\<close>

lemma init_history: "CLIChatbot_init env = Inr c \<Longrightarrow> chat_history c = []"
  by (auto simp: CLIChatbot_init_def split: sum.splits)

lemma init_with_key:
  "k \<noteq> [] \<Longrightarrow>
     AnthropicChatbot_init (env(py ''ANTHROPIC_API_KEY'' \<mapsto> k)) cfg
       = Inr \<lparr> config = cfg,
               llm = \<lparr> model = model_name cfg, llm_temperature = temperature cfg,
                       llm_max_tokens = max_tokens cfg, anthropic_api_key = k \<rparr>,
               prompt = setup_prompt_template cfg \<rparr>"
  by (simp add: AnthropicChatbot_init_def setup_llm_def)

lemma main_after_clear:
  assumes "st_fault ui = None" and "api_key_input ui \<noteq> []"
  shows "main invoke ui (s\<lparr> messages := Some [] \<rparr>) = main invoke ui (s\<lparr> messages := None \<rparr>)"
  using assms
  by (simp add: main_def main_chat_def widget_clear_def Let_def init_with_key)

lemma ex_cli_init: "CLIChatbot_init ex_environ = Inr (self ex_terminal)"
  by (simp add: CLIChatbot_init_def ex_init ex_terminal_def)

lemma ex_terminal_eq: "\<lparr> self = self ex_terminal, stdout = [], world = 0 \<rparr> = ex_terminal"
  by (simp add: ex_terminal_def)

lemma ex_run_history:
  "chat_history (self (snd (run answering [py ''hello'', py ''  '', py ''Thanks''] ex_terminal)))
     = [\<lparr> role = py ''user'', content = py ''hello'' \<rparr>, \<lparr> role = py ''assistant'', content = py ''ok'' \<rparr>,
        \<lparr> role = py ''user'', content = py ''Thanks'' \<rparr>, \<lparr> role = py ''assistant'', content = py ''ok'' \<rparr>]"
  by (simp add: run_def run_iteration_def cli_submit_def get_response_def answering_def
      ex_terminal_def strip_def lower_def py_def isspace_def lower_cp_def Let_def)

text \<open>
  C8. Clearing cannot fail. In the terminal front end it leaves a transcript of length 0,
  does not touch the service, and done twice gives the same object as done once; after
  any run from a newly built object it gives that object back, so the next input is sent
  as from a new session. In the widget front end it sets the transcript to the empty
  list and restarts the script, done twice it gives the same state, and the next run of
  \<open>main\<close> with a key does what it does on a session that has no transcript yet.
\<close>

theorem clear_resets_session:
  "chat_history (self (cli_clear t)) = []
   \<and> length (chat_history (self (cli_clear t))) = 0
   \<and> self (cli_clear (cli_clear t)) = self (cli_clear t)
   \<and> world (cli_clear t) = world t
   \<and> (CLIChatbot_init env = Inr c \<and> run invoke stdin \<lparr> self = c, stdout = out, world = w \<rparr> = (r, t) \<longrightarrow>
        self (cli_clear t) = c \<and>
        cli_submit invoke user_text (cli_clear t)
          = cli_submit invoke user_text \<lparr> self = c, stdout = stdout (cli_clear t), world = world t \<rparr>)
   \<and> widget_clear s = (Rerun, s\<lparr> messages := Some [] \<rparr>)
   \<and> snd (widget_clear (snd (widget_clear s))) = snd (widget_clear s)
   \<and> (st_fault ui = None \<and> api_key_input ui \<noteq> [] \<longrightarrow>
        main invoke ui (snd (widget_clear s)) = main invoke ui (s\<lparr> messages := None \<rparr>))"
proof -
  have a: "chat_history (self (cli_clear t)) = []"
    by (simp add: cli_clear_def)
  have b: "self (cli_clear (cli_clear t)) = self (cli_clear t)"
    by (simp add: cli_clear_def)
  have w: "world (cli_clear t) = world t"
    by (simp add: cli_clear_def)
  have fresh: "self (cli_clear t) = c"
    if i: "CLIChatbot_init env = Inr c"
      and r: "run invoke stdin \<lparr> self = c, stdout = out, world = w \<rparr> = (r, t)"
  proof -
    from run_frame [of invoke stdin "\<lparr> self = c, stdout = out, world = w \<rparr>"] r
    have "cli_config (self t) = cli_config c" "chatbot (self t) = chatbot c"
      by simp_all
    moreover from i have "chat_history c = []"
      by (rule init_history)
    ultimately show ?thesis
      by (simp add: cli_clear_def)
  qed
  have same: "cli_submit invoke user_text (cli_clear t)
          = cli_submit invoke user_text \<lparr> self = c, stdout = stdout (cli_clear t), world = world t \<rparr>"
    if "self (cli_clear t) = c"
  proof -
    have "cli_clear t = \<lparr> self = c, stdout = stdout (cli_clear t), world = world t \<rparr>"
      using that w by (cases "cli_clear t") simp
    then show ?thesis by simp
  qed
  have wc: "widget_clear s = (Rerun, s\<lparr> messages := Some [] \<rparr>)"
    by (simp add: widget_clear_def)
  have wi: "snd (widget_clear (snd (widget_clear s))) = snd (widget_clear s)"
    by (simp add: widget_clear_def)
  have wm: "main invoke ui (snd (widget_clear s)) = main invoke ui (s\<lparr> messages := None \<rparr>)"
    if "st_fault ui = None" "api_key_input ui \<noteq> []"
    using that main_after_clear [of ui invoke s] by (simp add: widget_clear_def)
  show ?thesis
    using a b w fresh same wc wi wm by simp
qed

theorem clear_resets_session_witness:
  "CLIChatbot_init ex_environ = Inr (self ex_terminal) \<and>
   chat_history (self (snd (run answering [py ''hello'', py ''  '', py ''Thanks''] ex_terminal)))
     = [\<lparr> role = py ''user'', content = py ''hello'' \<rparr>, \<lparr> role = py ''assistant'', content = py ''ok'' \<rparr>,
        \<lparr> role = py ''user'', content = py ''Thanks'' \<rparr>, \<lparr> role = py ''assistant'', content = py ''ok'' \<rparr>] \<and>
   self (cli_clear (snd (run answering [py ''hello'', py ''  '', py ''Thanks''] ex_terminal)))
     = self ex_terminal \<and>
   st_fault (ex_ui (Some (py ''hi''))) = None \<and> api_key_input (ex_ui (Some (py ''hi''))) \<noteq> [] \<and>
   main answering (ex_ui (Some (py ''hi''))) (snd (widget_clear ex_web))
     = main answering (ex_ui (Some (py ''hi''))) (ex_web\<lparr> messages := None \<rparr>)"
proof -
  let ?r = "run answering [py ''hello'', py ''  '', py ''Thanks''] ex_terminal"
  have r: "run answering [py ''hello'', py ''  '', py ''Thanks'']
             \<lparr> self = self ex_terminal, stdout = [], world = 0 \<rparr> = (fst ?r, snd ?r)"
    by (simp add: ex_terminal_eq)
  have u1: "st_fault (ex_ui (Some (py ''hi''))) = None"
    and u2: "api_key_input (ex_ui (Some (py ''hi''))) \<noteq> []"
    by (simp_all add: ex_ui_def)
  note th = clear_resets_session [where env = ex_environ and c = "self ex_terminal"
      and invoke = answering and stdin = "[py ''hello'', py ''  '', py ''Thanks'']"
      and out = "[]" and w = 0 and r = "fst ?r" and t = "snd ?r"
      and ui = "ex_ui (Some (py ''hi''))" and s = ex_web]
  from th ex_cli_init r have a: "self (cli_clear (snd ?r)) = self ex_terminal"
    by blast
  from th u1 u2 have b: "main answering (ex_ui (Some (py ''hi''))) (snd (widget_clear ex_web))
     = main answering (ex_ui (Some (py ''hi''))) (ex_web\<lparr> messages := None \<rparr>)"
    by blast
  from ex_cli_init ex_run_history a u1 u2 b show ?thesis
    by blast
qed

section \<open>The shape of the terminal history\<close>

lemma alternation_append:
  assumes e: "even (length h)"
    and a: "\<forall>i<length h. role (h ! i) = (if even i then py ''user'' else py ''assistant'')"
  shows "\<forall>i<length (h @ [\<lparr> role = py ''user'', content = u \<rparr>, \<lparr> role = py ''assistant'', content = v \<rparr>]).
           role ((h @ [\<lparr> role = py ''user'', content = u \<rparr>, \<lparr> role = py ''assistant'', content = v \<rparr>]) ! i)
             = (if even i then py ''user'' else py ''assistant'')"
proof (intro allI impI)
  fix i
  let ?h' = "h @ [\<lparr> role = py ''user'', content = u \<rparr>, \<lparr> role = py ''assistant'', content = v \<rparr>]"
  assume "i < length ?h'"
  then consider "i < length h" | "i = length h" | "i = Suc (length h)"
    by (cases "i < length h") (auto simp: less_Suc_eq)
  then show "role (?h' ! i) = (if even i then py ''user'' else py ''assistant'')"
  proof cases
    case 1
    with a show ?thesis by (simp add: nth_append)
  next
    case 2
    with e show ?thesis by (simp add: nth_append)
  next
    case 3
    with e show ?thesis by (simp add: nth_append)
  qed
qed

lemma run_iteration_history:
  "chat_history (self (snd (run_iteration invoke line t))) = chat_history (self t)
   \<or> chat_history (self (snd (run_iteration invoke line t))) = []
   \<or> (\<exists>reply w'. get_response invoke (chatbot (self t)) (strip line)
                      (Some (chat_history (self t))) (world t) = (Inr reply, w')
         \<and> chat_history (self (snd (run_iteration invoke line t)))
             = chat_history (self t) @ [\<lparr> role = py ''user'', content = strip line \<rparr>,
                                        \<lparr> role = py ''assistant'', content = reply \<rparr>])"
  by (auto simp: run_iteration_def cli_submit_def cli_clear_def Let_def
      split: prod.splits sum.splits option.splits)

lemma run_iteration_alternates:
  assumes "even (length (chat_history (self t)))"
    and "\<forall>i<length (chat_history (self t)).
           role (chat_history (self t) ! i) = (if even i then py ''user'' else py ''assistant'')"
  shows "even (length (chat_history (self (snd (run_iteration invoke line t)))))
         \<and> (\<forall>i<length (chat_history (self (snd (run_iteration invoke line t)))).
              role (chat_history (self (snd (run_iteration invoke line t))) ! i)
                = (if even i then py ''user'' else py ''assistant''))"
  using run_iteration_history [of invoke line t]
proof (elim disjE exE conjE)
  assume "chat_history (self (snd (run_iteration invoke line t))) = chat_history (self t)"
  with assms show ?thesis by simp
next
  assume "chat_history (self (snd (run_iteration invoke line t))) = []"
  then show ?thesis by simp
next
  fix reply w'
  assume h: "chat_history (self (snd (run_iteration invoke line t)))
             = chat_history (self t) @ [\<lparr> role = py ''user'', content = strip line \<rparr>,
                                        \<lparr> role = py ''assistant'', content = reply \<rparr>]"
  from assms(1) have "even (length (chat_history (self (snd (run_iteration invoke line t)))))"
    by (simp add: h)
  moreover note alternation_append [OF assms, of "strip line" reply]
  ultimately show ?thesis
    unfolding h by blast
qed

lemma run_loop_alternates:
  assumes "even (length (chat_history (self t)))"
    and "\<forall>i<length (chat_history (self t)).
           role (chat_history (self t) ! i) = (if even i then py ''user'' else py ''assistant'')"
  shows "even (length (chat_history (self (snd (run_loop invoke lines t)))))
         \<and> (\<forall>i<length (chat_history (self (snd (run_loop invoke lines t)))).
              role (chat_history (self (snd (run_loop invoke lines t))) ! i)
                = (if even i then py ''user'' else py ''assistant''))"
  using assms
proof (induction lines arbitrary: t)
  case Nil
  then show ?case by simp
next
  case (Cons line rest)
  obtain f t' where it: "run_iteration invoke line t = (f, t')"
    by (cases "run_iteration invoke line t")
  from run_iteration_alternates [OF Cons.prems, of invoke line] it
  have inv: "even (length (chat_history (self t')))"
    "\<forall>i<length (chat_history (self t')).
       role (chat_history (self t') ! i) = (if even i then py ''user'' else py ''assistant'')"
    by simp_all
  show ?case
  proof (cases f)
    case Next
    with it Cons.IH [OF inv] show ?thesis by simp
  next
    case Break
    with it inv show ?thesis by simp
  next
    case (Raised e)
    with it inv show ?thesis by simp
  qed
qed

text \<open>
  C10. In the terminal front end, started from a newly built object, the history at the
  end of any number of passes through the loop has even length, with a user turn at
  every even index and an assistant turn at every odd one. Each pass keeps that shape,
  since it leaves the history as it is, empties it, or appends a user turn and an
  assistant turn together, the last only when the call to the service has returned a
  reply.
\<close>

theorem terminal_history_alternates:
  "(CLIChatbot_init env = Inr c \<longrightarrow>
      even (length (chat_history (self (snd (run invoke stdin \<lparr> self = c, stdout = out, world = w \<rparr>)))))
      \<and> (\<forall>i<length (chat_history (self (snd (run invoke stdin \<lparr> self = c, stdout = out, world = w \<rparr>)))).
           role (chat_history (self (snd (run invoke stdin \<lparr> self = c, stdout = out, world = w \<rparr>))) ! i)
             = (if even i then py ''user'' else py ''assistant'')))
   \<and> (even (length (chat_history (self t)))
       \<and> (\<forall>i<length (chat_history (self t)).
            role (chat_history (self t) ! i) = (if even i then py ''user'' else py ''assistant''))
       \<longrightarrow>
        even (length (chat_history (self (snd (run_iteration invoke line t)))))
        \<and> (\<forall>i<length (chat_history (self (snd (run_iteration invoke line t)))).
             role (chat_history (self (snd (run_iteration invoke line t))) ! i)
               = (if even i then py ''user'' else py ''assistant'')))
   \<and> (chat_history (self (snd (run_iteration invoke line t))) = chat_history (self t)
       \<or> chat_history (self (snd (run_iteration invoke line t))) = []
       \<or> (\<exists>reply w'. get_response invoke (chatbot (self t)) (strip line)
                          (Some (chat_history (self t))) (world t) = (Inr reply, w')
             \<and> chat_history (self (snd (run_iteration invoke line t)))
                 = chat_history (self t) @ [\<lparr> role = py ''user'', content = strip line \<rparr>,
                                            \<lparr> role = py ''assistant'', content = reply \<rparr>]))"
proof -
  have run_ok: "even (length (chat_history (self (snd (run invoke stdin \<lparr> self = c, stdout = out, world = w \<rparr>)))))
      \<and> (\<forall>i<length (chat_history (self (snd (run invoke stdin \<lparr> self = c, stdout = out, world = w \<rparr>)))).
           role (chat_history (self (snd (run invoke stdin \<lparr> self = c, stdout = out, world = w \<rparr>))) ! i)
             = (if even i then py ''user'' else py ''assistant''))"
    if "CLIChatbot_init env = Inr c"
  proof -
    from that have "chat_history c = []" by (rule init_history)
    then show ?thesis
      unfolding run_def by (intro run_loop_alternates) simp_all
  qed
  show ?thesis
    using run_ok run_iteration_alternates [of t invoke line] run_iteration_history [of invoke line t]
    by blast
qed

theorem terminal_history_alternates_witness:
  "CLIChatbot_init ex_environ = Inr (self ex_terminal) \<and>
   length (chat_history (self (snd (run answering [py ''hello'', py ''  '', py ''Thanks''] ex_terminal)))) = 4 \<and>
   even (length (chat_history (self (snd (run answering [py ''hello'', py ''  '', py ''Thanks''] ex_terminal))))) \<and>
   role (chat_history (self (snd (run answering [py ''hello'', py ''  '', py ''Thanks''] ex_terminal))) ! 0)
     = py ''user'' \<and>
   role (chat_history (self (snd (run answering [py ''hello'', py ''  '', py ''Thanks''] ex_terminal))) ! 3)
     = py ''assistant''"
proof -
  let ?h = "chat_history (self (snd (run answering [py ''hello'', py ''  '', py ''Thanks''] ex_terminal)))"
  note th = terminal_history_alternates [where env = ex_environ and c = "self ex_terminal"
      and invoke = answering and stdin = "[py ''hello'', py ''  '', py ''Thanks'']"
      and out = "[]" and w = 0]
  from th ex_cli_init
  have inv: "even (length ?h)
     \<and> (\<forall>i<length ?h. role (?h ! i) = (if even i then py ''user'' else py ''assistant''))"
    unfolding ex_terminal_eq by blast
  have len: "length ?h = 4"
    by (simp add: ex_run_history)
  from inv len have "role (?h ! 0) = (if even (0::nat) then py ''user'' else py ''assistant'')"
    "role (?h ! 3) = (if even (3::nat) then py ''user'' else py ''assistant'')"
    by simp_all
  then have "role (?h ! 0) = py ''user''" "role (?h ! 3) = py ''assistant''"
    by simp_all
  with ex_cli_init len inv show ?thesis
    by blast
qed


end
